theory Spec2Isabelle
  imports Main
begin

section \<open>Entities of the room controller\<close>

text \<open>
  Modelled from the spec: the Go package \<open>protocol\<close> (the types \<open>UserStatus\<close>,
  \<open>LiveRoom\<close> and \<open>ActiveUser\<close>) is not part of the sources at hand; only
  \<open>controller/room.go\<close>, which uses it, is. The seven presence states are the ones the
  specification lists for \<open>ActiveUser.Status\<close>; the constructors carry the names of the
  Go constants that \<open>room.go\<close> mentions.
\<close>

datatype UserStatus =
    UserStatusIdle
  | UserStatusSingleLive
  | UserStatusPKWait
  | UserStatusPKLive
  | UserStatusWatching
  | UserStatusJoinWait
  | UserStatusJoined

text \<open>
  Modelled from the spec: \<open>protocol.LiveRoom\<close>. All fields are Go strings; the empty
  string is the zero value that \<open>UpdateRoom\<close> tests for. \<open>Status\<close> is \<open>''single''\<close> or
  \<open>''pk''\<close> in a stored room.
\<close>

record LiveRoom =
  ID :: string
  Name :: string
  Creator :: string
  Status :: string
  RTCRoom :: string
  PlayURL :: string
  PKAnchor :: string

text \<open>
  Modelled from the spec: \<open>protocol.ActiveUser\<close>. The fields \<open>ID\<close> and \<open>Status\<close> of
  the Go struct are written \<open>ID_u\<close> and \<open>Status_u\<close>, since a record field is a constant
  of the theory and \<open>LiveRoom\<close> has taken the plain names. \<open>JoinPosition\<close> is a
  \<open>*int\<close> in Go: \<open>nil\<close> is \<open>None\<close>.
\<close>

record ActiveUser =
  ID_u :: string
  Status_u :: UserStatus
  Room :: string
  JoinPosition :: "int option"

text \<open>
  Modelled from the spec: the codes of \<open>errors.ServerError\<close> that \<open>room.go\<close> builds
  (package \<open>errors\<close> is not part of the sources at hand).
\<close>

datatype ServerErrorCode =
    ServerErrorMongoOpFail
  | ServerErrorTooManyRooms
  | ServerErrorRoomNameUsed
  | ServerErrorCanOnlyCreateOneRoom
  | ServerErrorUserWatching
  | ServerErrorUserJoined
  | ServerErrorUserBroadcasting
  | ServerErrorRoomNotFound

text \<open>
  A Go \<open>error\<close> value that the controller can hand back: a typed \<open>*errors.ServerError\<close>,
  or an error of the store passed through as it is. \<open>ErrNoDocuments\<close> is the store's
  "no document matched" (qmgo's \<open>ErrNoSuchDocuments\<close> is the same value),
  \<open>ErrDuplicateKey\<close> the refusal of an insert whose \<open>_id\<close> is taken, and
  \<open>ErrStoreFailure\<close> any other failure of a store call.
\<close>

datatype error =
    ServerError ServerErrorCode
  | ErrNoDocuments
  | ErrDuplicateKey
  | ErrStoreFailure

section \<open>The document store\<close>

text \<open>
  \<open>RoomController\<close> as in \<open>room.go\<close>. The two collections are the lists of their
  documents, in the store's order. The connection \<open>mongoClient\<close> is represented by
  \<open>faults\<close>: a script saying, for each store call still to come, whether it fails
  (\<open>True\<close>); a call takes the head of the script, and an exhausted script means that
  every further call goes through. The logger has no effect on results and is left out.
\<close>

record RoomController =
  roomColl :: "LiveRoom list"
  activeUserColl :: "ActiveUser list"
  roomNumberLimit :: int
  faults :: "bool list"

definition DefaultRoomNumberLimit :: int where
  "DefaultRoomNumberLimit = 20"

definition store_call :: "RoomController \<Rightarrow> bool \<times> RoomController" where
  "store_call c =
     (case faults c of
        [] \<Rightarrow> (False, c)
      | b # bs \<Rightarrow> (b, c\<lparr>faults := bs\<rparr>))"

text \<open>\<open>$set\<close> on the first document that matches, and deletion of the first match.\<close>

fun update_first :: "('a \<Rightarrow> bool) \<Rightarrow> ('a \<Rightarrow> 'a) \<Rightarrow> 'a list \<Rightarrow> 'a list" where
  "update_first p f [] = []"
| "update_first p f (x # xs) = (if p x then f x # xs else x # update_first p f xs)"

fun remove_first :: "('a \<Rightarrow> bool) \<Rightarrow> 'a list \<Rightarrow> 'a list" where
  "remove_first p [] = []"
| "remove_first p (x # xs) = (if p x then xs else x # remove_first p xs)"

text \<open>
  The calls of qmgo that \<open>room.go\<close> makes, one definition per call and collection. A
  filter \<open>bson.M{...}\<close> is the predicate it denotes on documents; an update
  \<open>bson.M{"$set": ...}\<close> is the function it applies to the matched document; a
  \<open>$set\<close> of a whole entity writes every field of it, so the matched document becomes
  that entity. A collection is keyed by \<open>_id\<close>: an insert under a taken \<open>_id\<close> is
  refused, and \<open>UpdateOne\<close> and \<open>RemoveId\<close> report \<open>ErrNoDocuments\<close> when nothing
  matches. A call that fails leaves the collection as it was. \<open>Count\<close> returns Go's pair of a number
  and an error; the others return the error or the result.
\<close>

definition roomColl_Count ::
  "(LiveRoom \<Rightarrow> bool) \<Rightarrow> RoomController \<Rightarrow> (int \<times> error option) \<times> RoomController" where
  "roomColl_Count flt c =
     (let (failed, c') = store_call c in
      if failed then ((0, Some ErrStoreFailure), c')
      else ((int (length (filter flt (roomColl c'))), None), c'))"

definition roomColl_One ::
  "(LiveRoom \<Rightarrow> bool) \<Rightarrow> RoomController \<Rightarrow> (error + LiveRoom) \<times> RoomController" where
  "roomColl_One flt c =
     (let (failed, c') = store_call c in
      if failed then (Inl ErrStoreFailure, c')
      else (case find flt (roomColl c') of
              None \<Rightarrow> (Inl ErrNoDocuments, c')
            | Some r \<Rightarrow> (Inr r, c')))"

definition roomColl_All ::
  "(LiveRoom \<Rightarrow> bool) \<Rightarrow> RoomController \<Rightarrow> (LiveRoom list \<times> error option) \<times> RoomController" where
  "roomColl_All flt c =
     (let (failed, c') = store_call c in
      if failed then (([], Some ErrStoreFailure), c')
      else ((filter flt (roomColl c'), None), c'))"

definition roomColl_InsertOne ::
  "LiveRoom \<Rightarrow> RoomController \<Rightarrow> error option \<times> RoomController" where
  "roomColl_InsertOne r c =
     (let (failed, c') = store_call c in
      if failed then (Some ErrStoreFailure, c')
      else (case find (\<lambda>x. ID x = ID r) (roomColl c') of
              Some x \<Rightarrow> (Some ErrDuplicateKey, c')
            | None \<Rightarrow> (None, c'\<lparr>roomColl := roomColl c' @ [r]\<rparr>)))"

definition roomColl_RemoveId ::
  "string \<Rightarrow> RoomController \<Rightarrow> error option \<times> RoomController" where
  "roomColl_RemoveId rid c =
     (let (failed, c') = store_call c in
      if failed then (Some ErrStoreFailure, c')
      else (case find (\<lambda>x. ID x = rid) (roomColl c') of
              None \<Rightarrow> (Some ErrNoDocuments, c')
            | Some x \<Rightarrow> (None, c'\<lparr>roomColl := remove_first (\<lambda>x. ID x = rid) (roomColl c')\<rparr>)))"

definition roomColl_UpdateOne ::
  "(LiveRoom \<Rightarrow> bool) \<Rightarrow> (LiveRoom \<Rightarrow> LiveRoom) \<Rightarrow> RoomController
     \<Rightarrow> error option \<times> RoomController" where
  "roomColl_UpdateOne flt upd c =
     (let (failed, c') = store_call c in
      if failed then (Some ErrStoreFailure, c')
      else (case find flt (roomColl c') of
              None \<Rightarrow> (Some ErrNoDocuments, c')
            | Some x \<Rightarrow> (None, c'\<lparr>roomColl := update_first flt upd (roomColl c')\<rparr>)))"

definition activeUserColl_One ::
  "(ActiveUser \<Rightarrow> bool) \<Rightarrow> RoomController \<Rightarrow> (error + ActiveUser) \<times> RoomController" where
  "activeUserColl_One flt c =
     (let (failed, c') = store_call c in
      if failed then (Inl ErrStoreFailure, c')
      else (case find flt (activeUserColl c') of
              None \<Rightarrow> (Inl ErrNoDocuments, c')
            | Some u \<Rightarrow> (Inr u, c')))"

definition activeUserColl_Count ::
  "(ActiveUser \<Rightarrow> bool) \<Rightarrow> RoomController \<Rightarrow> (int \<times> error option) \<times> RoomController" where
  "activeUserColl_Count flt c =
     (let (failed, c') = store_call c in
      if failed then ((0, Some ErrStoreFailure), c')
      else ((int (length (filter flt (activeUserColl c'))), None), c'))"

definition activeUserColl_All ::
  "(ActiveUser \<Rightarrow> bool) \<Rightarrow> RoomController
     \<Rightarrow> (ActiveUser list \<times> error option) \<times> RoomController" where
  "activeUserColl_All flt c =
     (let (failed, c') = store_call c in
      if failed then (([], Some ErrStoreFailure), c')
      else ((filter flt (activeUserColl c'), None), c'))"

definition activeUserColl_UpdateOne ::
  "(ActiveUser \<Rightarrow> bool) \<Rightarrow> (ActiveUser \<Rightarrow> ActiveUser) \<Rightarrow> RoomController
     \<Rightarrow> error option \<times> RoomController" where
  "activeUserColl_UpdateOne flt upd c =
     (let (failed, c') = store_call c in
      if failed then (Some ErrStoreFailure, c')
      else (case find flt (activeUserColl c') of
              None \<Rightarrow> (Some ErrNoDocuments, c')
            | Some x \<Rightarrow>
                (None, c'\<lparr>activeUserColl := update_first flt upd (activeUserColl c')\<rparr>)))"

definition activeUserColl_UpdateAll ::
  "(ActiveUser \<Rightarrow> bool) \<Rightarrow> (ActiveUser \<Rightarrow> ActiveUser) \<Rightarrow> RoomController
     \<Rightarrow> error option \<times> RoomController" where
  "activeUserColl_UpdateAll flt upd c =
     (let (failed, c') = store_call c in
      if failed then (Some ErrStoreFailure, c')
      else (None,
            c'\<lparr>activeUserColl := map (\<lambda>u. if flt u then upd u else u) (activeUserColl c')\<rparr>))"

section \<open>The operations of \<open>controller/room.go\<close>\<close>

text \<open>
  Every operation takes the controller and returns its Go result together with the
  controller after the store calls it made. A Go result \<open>(x, error)\<close> is
  \<open>error + 'a\<close>, and a result that is only an \<open>error\<close> is \<open>error option\<close>, \<open>None\<close>
  being \<open>nil\<close>.
\<close>

definition CreateRoom ::
  "RoomController \<Rightarrow> LiveRoom \<Rightarrow> (error + LiveRoom) \<times> RoomController" where
  "CreateRoom c room =
     (let ((n, err), c1) = roomColl_Count (\<lambda>r. True) c in
      if err \<noteq> None then (Inl (ServerError ServerErrorMongoOpFail), c1)
      else if n \<ge> roomNumberLimit c1 then (Inl (ServerError ServerErrorTooManyRooms), c1)
      else
        (case roomColl_One (\<lambda>r. Name r = Name room) c1 of
           (Inr existingRoom, c2) \<Rightarrow>
             if Creator existingRoom \<noteq> Creator room
             then (Inl (ServerError ServerErrorRoomNameUsed), c2)
             else (Inr existingRoom, c2)
         | (Inl err2, c2) \<Rightarrow>
             if err2 \<noteq> ErrNoDocuments then (Inl (ServerError ServerErrorMongoOpFail), c2)
             else
               (let creatorID = Creator room;
                    ((n3, err3), c3) = roomColl_Count (\<lambda>r. Creator r = creatorID) c2 in
                if err3 \<noteq> None \<and> err3 \<noteq> Some ErrNoDocuments
                then (Inl (ServerError ServerErrorMongoOpFail), c3)
                else if n3 > 0 then (Inl (ServerError ServerErrorCanOnlyCreateOneRoom), c3)
                else
                  (case activeUserColl_One (\<lambda>u. ID_u u = creatorID) c3 of
                     (Inl err4, c4) \<Rightarrow> (Inl err4, c4)
                   | (Inr activeUser, c4) \<Rightarrow>
                       if Status_u activeUser = UserStatusWatching
                       then (Inl (ServerError ServerErrorUserWatching), c4)
                       else if Status_u activeUser = UserStatusJoined
                               \<or> Status_u activeUser = UserStatusJoinWait
                       then (Inl (ServerError ServerErrorUserJoined), c4)
                       else
                         (case roomColl_InsertOne room c4 of
                            (Some err5, c5) \<Rightarrow> (Inl err5, c5)
                          | (None, c5) \<Rightarrow>
                              (let (err6, c6) =
                                     activeUserColl_UpdateOne (\<lambda>u. ID_u u = creatorID)
                                       (\<lambda>u. activeUser\<lparr>Status_u := UserStatusSingleLive,
                                                         Room := ID room\<rparr>) c5
                               in (Inr room, c6)))))))"


definition GetRoomByFields ::
  "RoomController \<Rightarrow> (LiveRoom \<Rightarrow> bool) \<Rightarrow> (error + LiveRoom) \<times> RoomController" where
  "GetRoomByFields c flds =
     (case roomColl_One flds c of
        (Inl err, c1) \<Rightarrow>
          if err = ErrNoDocuments then (Inl (ServerError ServerErrorRoomNotFound), c1)
          else (Inl err, c1)
      | (Inr room, c1) \<Rightarrow> (Inr room, c1))"

definition GetRoomByID ::
  "RoomController \<Rightarrow> string \<Rightarrow> (error + LiveRoom) \<times> RoomController" where
  "GetRoomByID c id' = GetRoomByFields c (\<lambda>r. ID r = id')"

definition UpdateRoom ::
  "RoomController \<Rightarrow> string \<Rightarrow> LiveRoom \<Rightarrow> (error + LiveRoom) \<times> RoomController" where
  "UpdateRoom c id' newRoom =
     (case GetRoomByID c id' of
        (Inl err, c1) \<Rightarrow> (Inl err, c1)
      | (Inr room, c1) \<Rightarrow>
          (let (renamed, c2) =
                 (if Name newRoom \<noteq> [] \<and> Name newRoom \<noteq> Name room then
                    (case GetRoomByFields c1
                            (\<lambda>r. ID r \<noteq> Name newRoom \<and> Name r = Name newRoom) of
                       (Inl err, c') \<Rightarrow>
                         if err \<noteq> ServerError ServerErrorRoomNotFound
                         then (Inl (ServerError ServerErrorMongoOpFail), c')
                         else (Inr (room\<lparr>Name := Name newRoom\<rparr>), c')
                     | (Inr other, c') \<Rightarrow> (Inl (ServerError ServerErrorRoomNameUsed), c'))
                  else (Inr room, c1))
           in case renamed of
                Inl err \<Rightarrow> (Inl err, c2)
              | Inr room1 \<Rightarrow>
                  (let room2 = (if Status newRoom \<noteq> Status room1
                                then room1\<lparr>Status := Status newRoom\<rparr> else room1);
                       room3 = (if RTCRoom newRoom \<noteq> []
                                then room2\<lparr>RTCRoom := RTCRoom newRoom\<rparr> else room2);
                       room4 = (if PlayURL newRoom \<noteq> []
                                then room3\<lparr>PlayURL := PlayURL newRoom\<rparr> else room3);
                       room5 = room4\<lparr>PKAnchor := PKAnchor newRoom\<rparr>
                   in case roomColl_UpdateOne (\<lambda>r. ID r = id') (\<lambda>r. room5) c2 of
                        (Some err, c3) \<Rightarrow> (Inl err, c3)
                      | (None, c3) \<Rightarrow> (Inr room5, c3))))"

definition EnterRoom ::
  "RoomController \<Rightarrow> string \<Rightarrow> string \<Rightarrow> (error + LiveRoom) \<times> RoomController" where
  "EnterRoom c userID roomID =
     (case GetRoomByID c roomID of
        (Inl err, c1) \<Rightarrow> (Inl err, c1)
      | (Inr room, c1) \<Rightarrow>
          (case activeUserColl_One (\<lambda>u. ID_u u = userID) c1 of
             (Inl err, c2) \<Rightarrow> (Inl err, c2)
           | (Inr activeUser, c2) \<Rightarrow>
               if Status_u activeUser = UserStatusSingleLive
                  \<or> Status_u activeUser = UserStatusPKLive
                  \<or> Status_u activeUser = UserStatusPKWait
               then (Inl (ServerError ServerErrorUserBroadcasting), c2)
               else if Status_u activeUser = UserStatusJoined
                       \<or> Status_u activeUser = UserStatusJoinWait
               then (if Room activeUser = roomID then (Inr room, c2)
                     else (Inl (ServerError ServerErrorUserJoined), c2))
               else
                 (case activeUserColl_UpdateOne (\<lambda>u. ID_u u = userID)
                         (\<lambda>u. activeUser\<lparr>Status_u := UserStatusWatching, Room := roomID\<rparr>)
                         c2 of
                    (Some err, c3) \<Rightarrow> (Inl err, c3)
                  | (None, c3) \<Rightarrow> (Inr room, c3))))"

text \<open>
  The argument \<open>fields\<close> of the source is written \<open>flds\<close>. It is a Go map, which may
  be \<open>nil\<close> (\<open>None\<close>); the operation then takes the empty filter.
\<close>

definition ListRoomsByFields ::
  "RoomController \<Rightarrow> (LiveRoom \<Rightarrow> bool) option
     \<Rightarrow> (error + LiveRoom list) \<times> RoomController" where
  "ListRoomsByFields c flds =
     (let flds' = (case flds of None \<Rightarrow> (\<lambda>r. True) | Some f \<Rightarrow> f);
          ((rooms, err), c1) = roomColl_All flds' c
      in (Inr rooms, c1))"

definition LeaveRoom ::
  "RoomController \<Rightarrow> string \<Rightarrow> string \<Rightarrow> error option \<times> RoomController" where
  "LeaveRoom c userID roomID =
     (let (lookup, c1) = GetRoomByID c roomID in
      case activeUserColl_One (\<lambda>u. ID_u u = userID) c1 of
        (Inl err, c2) \<Rightarrow> (Some err, c2)
      | (Inr activeUser, c2) \<Rightarrow>
          if Status_u activeUser = UserStatusSingleLive
             \<or> Status_u activeUser = UserStatusPKLive
             \<or> Status_u activeUser = UserStatusPKWait
          then (Some (ServerError ServerErrorUserBroadcasting), c2)
          else
            (let (err3, c3) =
                   activeUserColl_UpdateOne (\<lambda>u. ID_u u = userID)
                     (\<lambda>u. activeUser\<lparr>Status_u := UserStatusIdle, Room := [],
                                       JoinPosition := None\<rparr>) c2
             in (None, c3)))"

definition GetAudienceNumber ::
  "RoomController \<Rightarrow> string \<Rightarrow> (error + int) \<times> RoomController" where
  "GetAudienceNumber c roomID =
     (case GetRoomByID c roomID of
        (Inl err, c1) \<Rightarrow> (Inl err, c1)
      | (Inr room, c1) \<Rightarrow>
          (let ((audienceCount, err), c2) =
                 activeUserColl_Count
                   (\<lambda>u. Room u = ID room
                         \<and> Status_u u \<in> set [UserStatusWatching, UserStatusJoined,
                                              UserStatusJoinWait]) c1
           in case err of
                Some e \<Rightarrow> (Inl e, c2)
              | None \<Rightarrow> (Inr audienceCount, c2)))"

definition GetAllAudiences ::
  "RoomController \<Rightarrow> string \<Rightarrow> (error + ActiveUser list) \<times> RoomController" where
  "GetAllAudiences c roomID =
     (case GetRoomByID c roomID of
        (Inl err, c1) \<Rightarrow> (Inl err, c1)
      | (Inr room, c1) \<Rightarrow>
          (let ((ret, err), c2) =
                 activeUserColl_All
                   (\<lambda>u. Room u = ID room
                         \<and> Status_u u \<in> set [UserStatusWatching, UserStatusJoined,
                                              UserStatusJoinWait]) c1
           in case err of
                Some e \<Rightarrow> (Inl e, c2)
              | None \<Rightarrow> (Inr ret, c2)))"

section \<open>A running example\<close>

text \<open>
  The closure scenario of the specification: \<open>u1\<close> broadcasts in room \<open>r1\<close>; \<open>u2\<close>
  watches it, \<open>u3\<close> has asked to join, \<open>u4\<close> has joined, and \<open>u5\<close> is idle.
\<close>

definition new_room :: "string \<Rightarrow> string \<Rightarrow> string \<Rightarrow> LiveRoom" where
  "new_room rid nm cr =
     \<lparr>ID = rid, Name = nm, Creator = cr, Status = ''single'', RTCRoom = [], PlayURL = [],
      PKAnchor = []\<rparr>"

definition room_r1 :: LiveRoom where
  "room_r1 =
     \<lparr>ID = ''r1'', Name = ''alice-room'', Creator = ''u1'', Status = ''single'',
      RTCRoom = ''rtc-r1'', PlayURL = ''rtmp://live/r1'', PKAnchor = []\<rparr>"

definition demo_users :: "ActiveUser list" where
  "demo_users =
     [\<lparr>ID_u = ''u1'', Status_u = UserStatusSingleLive, Room = ''r1'', JoinPosition = None\<rparr>,
      \<lparr>ID_u = ''u2'', Status_u = UserStatusWatching, Room = ''r1'', JoinPosition = None\<rparr>,
      \<lparr>ID_u = ''u3'', Status_u = UserStatusJoinWait, Room = ''r1'', JoinPosition = Some 1\<rparr>,
      \<lparr>ID_u = ''u4'', Status_u = UserStatusJoined, Room = ''r1'', JoinPosition = Some 2\<rparr>,
      \<lparr>ID_u = ''u5'', Status_u = UserStatusIdle, Room = [], JoinPosition = None\<rparr>]"

definition demo_controller :: RoomController where
  "demo_controller =
     \<lparr>roomColl = [room_r1], activeUserColl = demo_users,
      roomNumberLimit = DefaultRoomNumberLimit, faults = []\<rparr>"

text \<open>
  A store in which the creator of \<open>r1\<close> is recorded as a joined co-streamer of that same
  room, holding seat 1.
\<close>

definition stale_creator_controller :: RoomController where
  "stale_creator_controller =
     \<lparr>roomColl = [room_r1],
      activeUserColl =
        [\<lparr>ID_u = ''u1'', Status_u = UserStatusJoined, Room = ''r1'', JoinPosition = Some 1\<rparr>],
      roomNumberLimit = DefaultRoomNumberLimit, faults = []\<rparr>"

text \<open>
  A store with a second room, \<open>r2\<close> of the broadcaster \<open>u6\<close>, beside \<open>r1\<close> and its
  audience.
\<close>

definition two_room_controller :: RoomController where
  "two_room_controller =
     \<lparr>roomColl = [room_r1, new_room ''r2'' ''bob-room'' ''u6''],
      activeUserColl =
        demo_users
        @ [\<lparr>ID_u = ''u6'', Status_u = UserStatusSingleLive, Room = ''r2'', JoinPosition = None\<rparr>],
      roomNumberLimit = DefaultRoomNumberLimit, faults = []\<rparr>"

text \<open>
  A store in which the second room has an identifier that is also its name,
  \<open>bob-room\<close>.
\<close>

definition rename_clash_controller :: RoomController where
  "rename_clash_controller =
     \<lparr>roomColl = [room_r1, new_room ''bob-room'' ''bob-room'' ''u2''],
      activeUserColl =
        [\<lparr>ID_u = ''u1'', Status_u = UserStatusSingleLive, Room = ''r1'', JoinPosition = None\<rparr>,
         \<lparr>ID_u = ''u2'', Status_u = UserStatusSingleLive, Room = ''bob-room'',
          JoinPosition = None\<rparr>],
      roomNumberLimit = DefaultRoomNumberLimit, faults = []\<rparr>"

text \<open>
  A store at the default limit: \<open>r1\<close> and nineteen further rooms, each with a creator
  and a name of its own.
\<close>

definition full_controller :: RoomController where
  "full_controller =
     \<lparr>roomColl =
        room_r1 #
        map (\<lambda>n. new_room (''room-'' @ replicate n (CHR ''x''))
                            (''name-'' @ replicate n (CHR ''x''))
                            (''creator-'' @ replicate n (CHR ''x''))) [1..<20],
      activeUserColl = demo_users,
      roomNumberLimit = DefaultRoomNumberLimit, faults = []\<rparr>"

section \<open>Facts about the store\<close>

lemma store_call_no_fault: "faults c = [] \<Longrightarrow> store_call c = (False, c)"
  by (simp add: store_call_def)

lemmas store_defs =
  roomColl_Count_def roomColl_One_def roomColl_All_def roomColl_InsertOne_def
  roomColl_RemoveId_def roomColl_UpdateOne_def activeUserColl_One_def
  activeUserColl_Count_def activeUserColl_All_def activeUserColl_UpdateOne_def
  activeUserColl_UpdateAll_def

lemmas demo_defs =
  demo_controller_def demo_users_def room_r1_def new_room_def DefaultRoomNumberLimit_def
  full_controller_def stale_creator_controller_def two_room_controller_def
  rename_clash_controller_def




lemma find_update_first_same:
  "find p xs = Some x \<Longrightarrow> p y \<Longrightarrow> find p (update_first p (\<lambda>_. y) xs) = Some y"
  by (induction xs) (auto split: if_splits)


lemma find_key_holds: "find (\<lambda>x. k x = a) xs = Some x \<Longrightarrow> k x = a"
  by (induction xs) (auto split: if_splits)

text \<open>What a store call tells, whatever the script of failures.\<close>

lemma store_call_roomColl: "roomColl (snd (store_call c)) = roomColl c"
  by (simp add: store_call_def split: list.splits)

lemma roomColl_One_Inr:
  "roomColl_One p c = (Inr r, c1) \<Longrightarrow> find p (roomColl c) = Some r \<and> roomColl c1 = roomColl c"
  using store_call_roomColl [of c]
  by (auto simp add: roomColl_One_def split: prod.splits if_splits option.splits)

lemma roomColl_One_Inl:
  "roomColl_One p c = (Inl e, c1) \<Longrightarrow> roomColl c1 = roomColl c"
  using store_call_roomColl [of c]
  by (auto simp add: roomColl_One_def split: prod.splits if_splits option.splits)

lemma GetRoomByFields_Inr:
  "GetRoomByFields c p = (Inr r, c1) \<Longrightarrow> find p (roomColl c) = Some r \<and> roomColl c1 = roomColl c"
  by (auto simp add: GetRoomByFields_def split: prod.splits sum.splits if_splits
      dest: roomColl_One_Inr)

lemma GetRoomByFields_Inl:
  "GetRoomByFields c p = (Inl e, c1) \<Longrightarrow> roomColl c1 = roomColl c"
  by (auto simp add: GetRoomByFields_def split: prod.splits sum.splits if_splits
      dest: roomColl_One_Inl)

lemma roomColl_UpdateOne_None:
  "roomColl_UpdateOne p f c = (None, c3) \<Longrightarrow>
   roomColl c3 = update_first p f (roomColl c) \<and> find p (roomColl c) \<noteq> None"
  using store_call_roomColl [of c]
  by (auto simp add: roomColl_UpdateOne_def split: prod.splits if_splits option.splits)

text \<open>The calls on a store that answers.\<close>

lemma GetRoomByID_none:
  "faults c = [] \<Longrightarrow> find (\<lambda>r. ID r = rid) (roomColl c) = None \<Longrightarrow>
   GetRoomByID c rid = (Inl (ServerError ServerErrorRoomNotFound), c)"
  by (simp add: GetRoomByID_def GetRoomByFields_def roomColl_One_def store_call_no_fault)

lemma GetRoomByID_some:
  "faults c = [] \<Longrightarrow> find (\<lambda>r. ID r = rid) (roomColl c) = Some room \<Longrightarrow>
   GetRoomByID c rid = (Inr room, c)"
  by (simp add: GetRoomByID_def GetRoomByFields_def roomColl_One_def store_call_no_fault)

lemma activeUserColl_One_some:
  "faults c = [] \<Longrightarrow> find p (activeUserColl c) = Some u \<Longrightarrow> activeUserColl_One p c = (Inr u, c)"
  by (simp add: activeUserColl_One_def store_call_no_fault)

lemma activeUserColl_UpdateOne_some:
  "faults c = [] \<Longrightarrow> find p (activeUserColl c) = Some u \<Longrightarrow>
   activeUserColl_UpdateOne p f c
     = (None, c\<lparr>activeUserColl := update_first p f (activeUserColl c)\<rparr>)"
  by (simp add: activeUserColl_UpdateOne_def store_call_no_fault)

section \<open>Room creation\<close>

text \<open>
  C1. With the store answering every call, \<open>CreateRoom\<close> tests its guards in the order
  room count, room name, creator's rooms, creator's presence, and the first guard that
  fails decides the result, whatever the later ones would say: a count at or over the
  limit gives \<open>TooManyRooms\<close>; below the limit, a stored room of that name with another
  creator gives \<open>RoomNameUsed\<close>; with the name free, a stored room of the creator gives
  \<open>CanOnlyCreateOneRoom\<close>; with no such room, a creator who is watching gives
  \<open>UserWatching\<close> and one who has joined or waits to join gives \<open>UserJoined\<close>. Each
  failure leaves the store as it was.
\<close>

theorem CreateRoom_guard_order:
  assumes "faults c = []"
  shows "(roomNumberLimit c \<le> int (length (roomColl c)) \<longrightarrow>
            CreateRoom c room = (Inl (ServerError ServerErrorTooManyRooms), c))
       \<and> (int (length (roomColl c)) < roomNumberLimit c
            \<and> find (\<lambda>r. Name r = Name room) (roomColl c) = Some existing
            \<and> Creator existing \<noteq> Creator room \<longrightarrow>
            CreateRoom c room = (Inl (ServerError ServerErrorRoomNameUsed), c))
       \<and> (int (length (roomColl c)) < roomNumberLimit c
            \<and> find (\<lambda>r. Name r = Name room) (roomColl c) = None
            \<and> (\<exists>r\<in>set (roomColl c). Creator r = Creator room) \<longrightarrow>
            CreateRoom c room = (Inl (ServerError ServerErrorCanOnlyCreateOneRoom), c))
       \<and> (int (length (roomColl c)) < roomNumberLimit c
            \<and> find (\<lambda>r. Name r = Name room) (roomColl c) = None
            \<and> \<not> (\<exists>r\<in>set (roomColl c). Creator r = Creator room)
            \<and> find (\<lambda>u. ID_u u = Creator room) (activeUserColl c) = Some creator
            \<and> Status_u creator = UserStatusWatching \<longrightarrow>
            CreateRoom c room = (Inl (ServerError ServerErrorUserWatching), c))
       \<and> (int (length (roomColl c)) < roomNumberLimit c
            \<and> find (\<lambda>r. Name r = Name room) (roomColl c) = None
            \<and> \<not> (\<exists>r\<in>set (roomColl c). Creator r = Creator room)
            \<and> find (\<lambda>u. ID_u u = Creator room) (activeUserColl c) = Some creator
            \<and> (Status_u creator = UserStatusJoined \<or> Status_u creator = UserStatusJoinWait) \<longrightarrow>
            CreateRoom c room = (Inl (ServerError ServerErrorUserJoined), c))"
  using assms
  by (auto simp add: CreateRoom_def store_defs store_call_no_fault Let_def filter_empty_conv)

text \<open>
  The five guards in the running example. In the first three calls a later guard would
  fail as well: \<open>u2\<close> is watching and asks for a name that \<open>u1\<close> holds.
\<close>

theorem CreateRoom_guard_order_witness:
  "CreateRoom full_controller (new_room ''r2'' ''alice-room'' ''u2'')
     = (Inl (ServerError ServerErrorTooManyRooms), full_controller)
   \<and> CreateRoom demo_controller (new_room ''r2'' ''alice-room'' ''u2'')
     = (Inl (ServerError ServerErrorRoomNameUsed), demo_controller)
   \<and> CreateRoom demo_controller (new_room ''r2'' ''second-room'' ''u1'')
     = (Inl (ServerError ServerErrorCanOnlyCreateOneRoom), demo_controller)
   \<and> CreateRoom demo_controller (new_room ''r2'' ''bob-room'' ''u2'')
     = (Inl (ServerError ServerErrorUserWatching), demo_controller)
   \<and> CreateRoom demo_controller (new_room ''r2'' ''dan-room'' ''u4'')
     = (Inl (ServerError ServerErrorUserJoined), demo_controller)"
  using
    CreateRoom_guard_order [where c = full_controller
      and room = "new_room ''r2'' ''alice-room'' ''u2''"]
    CreateRoom_guard_order [where c = demo_controller
      and room = "new_room ''r2'' ''alice-room'' ''u2''" and existing = room_r1]
    CreateRoom_guard_order [where c = demo_controller
      and room = "new_room ''r2'' ''second-room'' ''u1''"]
    CreateRoom_guard_order [where c = demo_controller
      and room = "new_room ''r2'' ''bob-room'' ''u2''"
      and creator = "\<lparr>ID_u = ''u2'', Status_u = UserStatusWatching, Room = ''r1'',
                       JoinPosition = None\<rparr>"]
    CreateRoom_guard_order [where c = demo_controller
      and room = "new_room ''r2'' ''dan-room'' ''u4''"
      and creator = "\<lparr>ID_u = ''u4'', Status_u = UserStatusJoined, Room = ''r1'',
                       JoinPosition = Some 2\<rparr>"]
  by (simp add: demo_defs)

text \<open>
  C2, as amended. With the store answering every call and the room count below the
  limit: when the stored room found under the candidate's name (the one room of that
  name, where names are unique) has the candidate's creator, \<open>CreateRoom\<close> returns that
  stored room, inserts nothing and leaves both collections as they were.
\<close>

theorem CreateRoom_idempotent_below_limit:
  assumes "faults c = []"
    and "int (length (roomColl c)) < roomNumberLimit c"
    and "find (\<lambda>r. Name r = Name room) (roomColl c) = Some existing"
    and "Creator existing = Creator room"
  shows "CreateRoom c room = (Inr existing, c)"
  using assms
  by (simp add: CreateRoom_def store_defs store_call_no_fault Let_def)

text \<open>\<open>u1\<close> asks again for the room it has; the candidate carries a fresh identifier.\<close>

theorem CreateRoom_idempotent_below_limit_witness:
  "CreateRoom demo_controller (new_room ''r2'' ''alice-room'' ''u1'') = (Inr room_r1, demo_controller)"
  using CreateRoom_idempotent_below_limit [where c = demo_controller
      and room = "new_room ''r2'' ''alice-room'' ''u1''" and existing = room_r1]
  by (simp add: demo_defs)

text \<open>
  C2 as stated fails at the limit: in the full store \<open>u1\<close> asks again for \<open>r1\<close>, which is
  stored under that name with that creator, and is refused with \<open>TooManyRooms\<close>, since
  the count is tested before the name.
\<close>

theorem CreateRoom_idempotent_counterexample:
  "find (\<lambda>r. Name r = Name room_r1 \<and> Creator r = Creator room_r1) (roomColl full_controller)
     = Some room_r1
   \<and> CreateRoom full_controller room_r1
     = (Inl (ServerError ServerErrorTooManyRooms), full_controller)"
  by (simp add: CreateRoom_def store_defs store_call_def demo_defs)

text \<open>
  C8. When the four guards pass, the insert goes through (the five store calls up to
  and including it succeed, and the room's identifier is free) and the update of the
  creator's presence record then fails, \<open>CreateRoom\<close> still returns the created room:
  the room is stored, the presence records are as they were, and no error reaches the
  caller.
\<close>

theorem CreateRoom_absorbs_status_update_failure:
  assumes "faults c = False # False # False # False # False # True # fs"
    and "int (length (roomColl c)) < roomNumberLimit c"
    and "find (\<lambda>r. Name r = Name room) (roomColl c) = None"
    and "\<not> (\<exists>r\<in>set (roomColl c). Creator r = Creator room)"
    and "find (\<lambda>u. ID_u u = Creator room) (activeUserColl c) = Some creator"
    and "Status_u creator \<noteq> UserStatusWatching"
    and "Status_u creator \<noteq> UserStatusJoined"
    and "Status_u creator \<noteq> UserStatusJoinWait"
    and "find (\<lambda>r. ID r = ID room) (roomColl c) = None"
  shows "CreateRoom c room = (Inr room, c\<lparr>roomColl := roomColl c @ [room], faults := fs\<rparr>)"
  using assms
  by (auto simp add: CreateRoom_def store_defs store_call_def Let_def filter_empty_conv)

text \<open>The idle user \<open>u5\<close> creates \<open>r2\<close>; the sixth store call is the one that fails.\<close>

theorem CreateRoom_absorbs_status_update_failure_witness:
  "CreateRoom (demo_controller\<lparr>faults := [False, False, False, False, False, True]\<rparr>)
       (new_room ''r2'' ''eve-room'' ''u5'')
     = (Inr (new_room ''r2'' ''eve-room'' ''u5''),
        demo_controller\<lparr>roomColl := [room_r1, new_room ''r2'' ''eve-room'' ''u5'']\<rparr>)"
  using CreateRoom_absorbs_status_update_failure
      [where c = "demo_controller\<lparr>faults := [False, False, False, False, False, True]\<rparr>"
       and room = "new_room ''r2'' ''eve-room'' ''u5''" and fs = "[]"
       and creator = "\<lparr>ID_u = ''u5'', Status_u = UserStatusIdle, Room = [],
                        JoinPosition = None\<rparr>"]
  by (simp add: demo_defs)

section \<open>Room closure\<close>






section \<open>Room update\<close>

lemma UpdateRoom_rename_stage:
  assumes "(if Name newRoom \<noteq> [] \<and> Name newRoom \<noteq> Name room then
              (case GetRoomByFields c1 flt of
                 (Inl err, c') \<Rightarrow>
                   if err \<noteq> ServerError ServerErrorRoomNotFound
                   then (Inl (ServerError ServerErrorMongoOpFail), c')
                   else (Inr (room\<lparr>Name := Name newRoom\<rparr>), c')
               | (Inr other, c') \<Rightarrow> (Inl (ServerError ServerErrorRoomNameUsed), c'))
            else (Inr room, c1)) = (Inr room1, c2)"
  shows "roomColl c2 = roomColl c1
       \<and> room1 = room\<lparr>Name := (if Name newRoom \<noteq> [] then Name newRoom else Name room)\<rparr>"
proof (cases "Name newRoom \<noteq> [] \<and> Name newRoom \<noteq> Name room")
  case False
  with assms show ?thesis by auto
next
  case True
  obtain res c' where g: "GetRoomByFields c1 flt = (res, c')"
    by (cases "GetRoomByFields c1 flt") auto
  show ?thesis
  proof (cases res)
    case (Inl err)
    with assms True g GetRoomByFields_Inl [of c1 flt err c'] show ?thesis
      by (simp split: if_splits)
  next
    case (Inr other)
    with assms True g show ?thesis by simp
  qed
qed

lemma UpdateRoom_Inr:
  assumes "UpdateRoom c id' newRoom = (Inr updated, c')"
  shows "\<exists>stored. find (\<lambda>r. ID r = id') (roomColl c) = Some stored
           \<and> updated =
               stored\<lparr>Name := (if Name newRoom \<noteq> [] then Name newRoom else Name stored),
                      Status := Status newRoom,
                      RTCRoom := (if RTCRoom newRoom \<noteq> [] then RTCRoom newRoom else RTCRoom stored),
                      PlayURL := (if PlayURL newRoom \<noteq> [] then PlayURL newRoom else PlayURL stored),
                      PKAnchor := PKAnchor newRoom\<rparr>
           \<and> roomColl c' = update_first (\<lambda>r. ID r = id') (\<lambda>r. updated) (roomColl c)"
proof -
  obtain res c1 where g: "GetRoomByFields c (\<lambda>r. ID r = id') = (res, c1)"
    by (cases "GetRoomByFields c (\<lambda>r. ID r = id')") auto
  show ?thesis
  proof (cases res)
    case (Inl err)
    with assms g show ?thesis by (simp add: UpdateRoom_def GetRoomByID_def)
  next
    case (Inr room)
    with g have st: "find (\<lambda>r. ID r = id') (roomColl c) = Some room"
      and c1: "roomColl c1 = roomColl c"
      by (auto dest: GetRoomByFields_Inr)
    let ?stage =
      "if Name newRoom \<noteq> [] \<and> Name newRoom \<noteq> Name room then
         (case GetRoomByFields c1 (\<lambda>r. ID r \<noteq> Name newRoom \<and> Name r = Name newRoom) of
            (Inl err, c') \<Rightarrow>
              if err \<noteq> ServerError ServerErrorRoomNotFound
              then (Inl (ServerError ServerErrorMongoOpFail), c')
              else (Inr (room\<lparr>Name := Name newRoom\<rparr>), c')
          | (Inr other, c') \<Rightarrow> (Inl (ServerError ServerErrorRoomNameUsed), c'))
       else (Inr room, c1)"
    obtain ren c2 where stage: "?stage = (ren, c2)"
      by (cases ?stage) auto
    show ?thesis
    proof (cases ren)
      case (Inl err)
      with assms g Inr stage show ?thesis
        by (simp add: UpdateRoom_def GetRoomByID_def split del: if_split)
    next
      case ren: (Inr room1)
      with stage have c2: "roomColl c2 = roomColl c1"
        and room1: "room1 = room\<lparr>Name := (if Name newRoom \<noteq> [] then Name newRoom else Name room)\<rparr>"
        using UpdateRoom_rename_stage [of newRoom room c1 _ room1 c2] by auto
      define room2 where
        "room2 = (if Status newRoom \<noteq> Status room1
                  then room1\<lparr>Status := Status newRoom\<rparr> else room1)"
      define room3 where
        "room3 = (if RTCRoom newRoom \<noteq> [] then room2\<lparr>RTCRoom := RTCRoom newRoom\<rparr> else room2)"
      define room4 where
        "room4 = (if PlayURL newRoom \<noteq> [] then room3\<lparr>PlayURL := PlayURL newRoom\<rparr> else room3)"
      define room5 where "room5 = room4\<lparr>PKAnchor := PKAnchor newRoom\<rparr>"
      have tail: "UpdateRoom c id' newRoom =
            (case roomColl_UpdateOne (\<lambda>r. ID r = id') (\<lambda>r. room5) c2 of
               (Some err, c3) \<Rightarrow> (Inl err, c3)
             | (None, c3) \<Rightarrow> (Inr room5, c3))"
        unfolding UpdateRoom_def GetRoomByID_def g Inr room5_def room4_def room3_def room2_def
        by (simp add: stage ren Let_def split del: if_split)
      have closed: "room5 =
          room1\<lparr>Status := Status newRoom,
                RTCRoom := (if RTCRoom newRoom \<noteq> [] then RTCRoom newRoom else RTCRoom room1),
                PlayURL := (if PlayURL newRoom \<noteq> [] then PlayURL newRoom else PlayURL room1),
                PKAnchor := PKAnchor newRoom\<rparr>"
        unfolding room5_def room4_def room3_def room2_def by (cases room1) simp
      obtain e c3 where u: "roomColl_UpdateOne (\<lambda>r. ID r = id') (\<lambda>r. room5) c2 = (e, c3)"
        by (cases "roomColl_UpdateOne (\<lambda>r. ID r = id') (\<lambda>r. room5) c2") auto
      show ?thesis
      proof (cases e)
        case (Some err)
        with assms tail u show ?thesis by simp
      next
        case None
        with assms tail u have upd: "updated = room5" and c': "c' = c3" by simp_all
        from u None have "roomColl c3 = update_first (\<lambda>r. ID r = id') (\<lambda>r. room5) (roomColl c2)"
          by (auto dest: roomColl_UpdateOne_None)
        with st c1 c2 upd c' room1 closed show ?thesis
          by simp
      qed
    qed
  qed
qed


text \<open>
  C5, as amended. After every successful \<open>UpdateRoom\<close>, whatever the store's failures
  on the way, the room returned is the room now stored under the identifier, and
  against the room stored before: \<open>RTCRoom\<close> and \<open>PlayURL\<close> are those of \<open>newRoom\<close>
  where it gives them and the stored ones where it leaves them empty, while \<open>Status\<close>
  and \<open>PKAnchor\<close> are always those of \<open>newRoom\<close>, empty or not.
\<close>

theorem UpdateRoom_patch_fields:
  assumes "UpdateRoom c id' newRoom = (Inr updated, c')"
  shows "\<exists>stored. find (\<lambda>r. ID r = id') (roomColl c) = Some stored
           \<and> Status updated = Status newRoom
           \<and> RTCRoom updated = (if RTCRoom newRoom = [] then RTCRoom stored else RTCRoom newRoom)
           \<and> PlayURL updated = (if PlayURL newRoom = [] then PlayURL stored else PlayURL newRoom)
           \<and> PKAnchor updated = PKAnchor newRoom
           \<and> find (\<lambda>r. ID r = id') (roomColl c') = Some updated"
proof -
  from UpdateRoom_Inr [OF assms] obtain stored
    where st: "find (\<lambda>r. ID r = id') (roomColl c) = Some stored"
      and upd: "updated =
               stored\<lparr>Name := (if Name newRoom \<noteq> [] then Name newRoom else Name stored),
                      Status := Status newRoom,
                      RTCRoom := (if RTCRoom newRoom \<noteq> [] then RTCRoom newRoom else RTCRoom stored),
                      PlayURL := (if PlayURL newRoom \<noteq> [] then PlayURL newRoom else PlayURL stored),
                      PKAnchor := PKAnchor newRoom\<rparr>"
      and c': "roomColl c' = update_first (\<lambda>r. ID r = id') (\<lambda>r. updated) (roomColl c)"
    by blast
  from st have "ID stored = id'" by (rule find_key_holds)
  with upd have "ID updated = id'" by simp
  with st have "find (\<lambda>r. ID r = id') (update_first (\<lambda>r. ID r = id') (\<lambda>r. updated) (roomColl c))
                  = Some updated"
    by (intro find_update_first_same [where x = stored]) simp_all
  with st upd c' show ?thesis by simp
qed

text \<open>A patch with a status and an \<open>RTCRoom\<close>, and nothing else.\<close>

theorem UpdateRoom_patch_fields_witness:
  "UpdateRoom demo_controller ''r1''
       \<lparr>ID = [], Name = [], Creator = [], Status = ''pk'', RTCRoom = ''rtc-2'', PlayURL = [],
        PKAnchor = []\<rparr>
     = (Inr (room_r1\<lparr>Status := ''pk'', RTCRoom := ''rtc-2''\<rparr>),
        demo_controller\<lparr>roomColl := [room_r1\<lparr>Status := ''pk'', RTCRoom := ''rtc-2''\<rparr>]\<rparr>)
   \<and> (\<exists>stored. find (\<lambda>r. ID r = ''r1'') (roomColl demo_controller) = Some stored
           \<and> Status (room_r1\<lparr>Status := ''pk'', RTCRoom := ''rtc-2''\<rparr>) = ''pk''
           \<and> RTCRoom (room_r1\<lparr>Status := ''pk'', RTCRoom := ''rtc-2''\<rparr>) = ''rtc-2''
           \<and> PlayURL (room_r1\<lparr>Status := ''pk'', RTCRoom := ''rtc-2''\<rparr>) = PlayURL stored
           \<and> PKAnchor (room_r1\<lparr>Status := ''pk'', RTCRoom := ''rtc-2''\<rparr>) = []
           \<and> find (\<lambda>r. ID r = ''r1'')
                 (roomColl (demo_controller\<lparr>roomColl := [room_r1\<lparr>Status := ''pk'',
                                                                  RTCRoom := ''rtc-2''\<rparr>]\<rparr>))
               = Some (room_r1\<lparr>Status := ''pk'', RTCRoom := ''rtc-2''\<rparr>))"
proof -
  have run: "UpdateRoom demo_controller ''r1''
       \<lparr>ID = [], Name = [], Creator = [], Status = ''pk'', RTCRoom = ''rtc-2'', PlayURL = [],
        PKAnchor = []\<rparr>
     = (Inr (room_r1\<lparr>Status := ''pk'', RTCRoom := ''rtc-2''\<rparr>),
        demo_controller\<lparr>roomColl := [room_r1\<lparr>Status := ''pk'', RTCRoom := ''rtc-2''\<rparr>]\<rparr>)"
    by (simp add: UpdateRoom_def GetRoomByID_def GetRoomByFields_def store_defs store_call_def
          demo_defs Let_def)
  from UpdateRoom_patch_fields [OF run] run show ?thesis
    by simp
qed

text \<open>
  C5 as stated fails for \<open>Status\<close>: a patch that only gives an \<open>RTCRoom\<close> leaves
  \<open>Status\<close> empty, and the stored status \<open>single\<close> is overwritten with the empty one.
\<close>

theorem UpdateRoom_status_counterexample:
  "Status room_r1 = ''single''
   \<and> UpdateRoom demo_controller ''r1''
       \<lparr>ID = [], Name = [], Creator = [], Status = [], RTCRoom = ''rtc-2'', PlayURL = [],
        PKAnchor = []\<rparr>
     = (Inr (room_r1\<lparr>Status := [], RTCRoom := ''rtc-2''\<rparr>),
        demo_controller\<lparr>roomColl := [room_r1\<lparr>Status := [], RTCRoom := ''rtc-2''\<rparr>]\<rparr>)"
  by (simp add: UpdateRoom_def GetRoomByID_def GetRoomByFields_def store_defs store_call_def
        demo_defs Let_def)

text \<open>
  C4. The renaming check of \<open>UpdateRoom\<close> leaves out the rooms whose identifier equals
  the new name, not the room being renamed. Where the one room that holds the new name
  has that name as its identifier, the check finds nothing: \<open>r1\<close> is renamed to
  \<open>bob-room\<close>, and two rooms of that name are stored, where C4 asks for
  \<open>RoomNameUsed\<close>.
\<close>

theorem UpdateRoom_rename_collision_missed:
  "UpdateRoom rename_clash_controller ''r1'' (new_room [] ''bob-room'' [])
     = (Inr (room_r1\<lparr>Name := ''bob-room''\<rparr>),
        rename_clash_controller
          \<lparr>roomColl := [room_r1\<lparr>Name := ''bob-room''\<rparr>,
                        new_room ''bob-room'' ''bob-room'' ''u2'']\<rparr>)"
  by (simp add: UpdateRoom_def GetRoomByID_def GetRoomByFields_def store_defs store_call_def
        demo_defs Let_def)


section \<open>Entering and leaving a room\<close>

lemma EnterRoom_found:
  assumes "faults c = []"
    and "find (\<lambda>r. ID r = roomID) (roomColl c) = Some room"
    and "find (\<lambda>v. ID_u v = userID) (activeUserColl c) = Some u"
  shows "EnterRoom c userID roomID =
           (if Status_u u = UserStatusSingleLive \<or> Status_u u = UserStatusPKLive
               \<or> Status_u u = UserStatusPKWait
            then (Inl (ServerError ServerErrorUserBroadcasting), c)
            else if Status_u u = UserStatusJoined \<or> Status_u u = UserStatusJoinWait
            then (if Room u = roomID then (Inr room, c)
                  else (Inl (ServerError ServerErrorUserJoined), c))
            else (Inr room,
                  c\<lparr>activeUserColl :=
                      update_first (\<lambda>v. ID_u v = userID)
                        (\<lambda>v. u\<lparr>Status_u := UserStatusWatching, Room := roomID\<rparr>)
                        (activeUserColl c)\<rparr>))"
  using assms
  by (simp add: EnterRoom_def GetRoomByID_some activeUserColl_One_some
        activeUserColl_UpdateOne_some)


text \<open>
  C6. With the store answering every call: \<open>EnterRoom\<close> fails with \<open>RoomNotFound\<close>
  when no room has the identifier. When the room exists and the user has a presence
  record: a user who is broadcasting (single live, PK live, PK wait) is refused with
  \<open>UserBroadcasting\<close>; a user who has joined or waits to join gets the room back with
  the store untouched when the recorded room is this one, and \<open>UserJoined\<close> when it is
  another; every other user gets the room back, and the user's record is now watching
  in this room.
\<close>

theorem EnterRoom_cases:
  assumes "faults c = []"
  shows "(find (\<lambda>r. ID r = roomID) (roomColl c) = None \<longrightarrow>
            EnterRoom c userID roomID = (Inl (ServerError ServerErrorRoomNotFound), c))
       \<and> (find (\<lambda>r. ID r = roomID) (roomColl c) = Some room
            \<and> find (\<lambda>v. ID_u v = userID) (activeUserColl c) = Some u \<longrightarrow>
            (Status_u u \<in> set [UserStatusSingleLive, UserStatusPKLive, UserStatusPKWait] \<longrightarrow>
               EnterRoom c userID roomID = (Inl (ServerError ServerErrorUserBroadcasting), c))
          \<and> (Status_u u \<in> set [UserStatusJoined, UserStatusJoinWait] \<and> Room u = roomID \<longrightarrow>
               EnterRoom c userID roomID = (Inr room, c))
          \<and> (Status_u u \<in> set [UserStatusJoined, UserStatusJoinWait] \<and> Room u \<noteq> roomID \<longrightarrow>
               EnterRoom c userID roomID = (Inl (ServerError ServerErrorUserJoined), c))
          \<and> (Status_u u \<notin> set [UserStatusSingleLive, UserStatusPKLive, UserStatusPKWait,
                                  UserStatusJoined, UserStatusJoinWait] \<longrightarrow>
               EnterRoom c userID roomID =
                 (Inr room,
                  c\<lparr>activeUserColl :=
                      update_first (\<lambda>v. ID_u v = userID)
                        (\<lambda>v. u\<lparr>Status_u := UserStatusWatching, Room := roomID\<rparr>)
                        (activeUserColl c)\<rparr>)
               \<and> find (\<lambda>v. ID_u v = userID) (activeUserColl (snd (EnterRoom c userID roomID)))
                   = Some (u\<lparr>Status_u := UserStatusWatching, Room := roomID\<rparr>)))"
proof (intro conjI impI)
  assume "find (\<lambda>r. ID r = roomID) (roomColl c) = None"
  with assms show "EnterRoom c userID roomID = (Inl (ServerError ServerErrorRoomNotFound), c)"
    by (simp add: EnterRoom_def GetRoomByID_none)
next
  assume f: "find (\<lambda>r. ID r = roomID) (roomColl c) = Some room
             \<and> find (\<lambda>v. ID_u v = userID) (activeUserColl c) = Some u"
  note found = EnterRoom_found [OF assms conjunct1 [OF f] conjunct2 [OF f]]
  {
    assume "Status_u u \<in> set [UserStatusSingleLive, UserStatusPKLive, UserStatusPKWait]"
    then show "EnterRoom c userID roomID = (Inl (ServerError ServerErrorUserBroadcasting), c)"
      unfolding found by auto
  next
    assume "Status_u u \<in> set [UserStatusJoined, UserStatusJoinWait] \<and> Room u = roomID"
    then show "EnterRoom c userID roomID = (Inr room, c)"
      unfolding found by auto
  next
    assume "Status_u u \<in> set [UserStatusJoined, UserStatusJoinWait] \<and> Room u \<noteq> roomID"
    then show "EnterRoom c userID roomID = (Inl (ServerError ServerErrorUserJoined), c)"
      unfolding found by auto
  next
    assume rest: "Status_u u \<notin> set [UserStatusSingleLive, UserStatusPKLive, UserStatusPKWait,
                                  UserStatusJoined, UserStatusJoinWait]"
    then show entered: "EnterRoom c userID roomID =
                 (Inr room,
                  c\<lparr>activeUserColl :=
                      update_first (\<lambda>v. ID_u v = userID)
                        (\<lambda>v. u\<lparr>Status_u := UserStatusWatching, Room := roomID\<rparr>)
                        (activeUserColl c)\<rparr>)"
      unfolding found by simp
    have "ID_u u = userID"
      using f by (auto dest: find_key_holds)
    then have "find (\<lambda>v. ID_u v = userID)
                 (update_first (\<lambda>v. ID_u v = userID)
                    (\<lambda>v. u\<lparr>Status_u := UserStatusWatching, Room := roomID\<rparr>) (activeUserColl c))
               = Some (u\<lparr>Status_u := UserStatusWatching, Room := roomID\<rparr>)"
      using f by (intro find_update_first_same [where x = u]) simp_all
    then show "find (\<lambda>v. ID_u v = userID) (activeUserColl (snd (EnterRoom c userID roomID)))
                   = Some (u\<lparr>Status_u := UserStatusWatching, Room := roomID\<rparr>)"
      unfolding entered by simp
  }
qed

text \<open>
  In the store with two rooms: a room that is not there; the broadcaster \<open>u1\<close>; the
  co-streamer \<open>u4\<close> of \<open>r1\<close> entering \<open>r1\<close> and then \<open>r2\<close>; and the viewer \<open>u2\<close> of
  \<open>r1\<close> moving to \<open>r2\<close>.
\<close>

theorem EnterRoom_cases_witness:
  "EnterRoom two_room_controller ''u5'' ''r9''
     = (Inl (ServerError ServerErrorRoomNotFound), two_room_controller)
   \<and> EnterRoom two_room_controller ''u1'' ''r2''
     = (Inl (ServerError ServerErrorUserBroadcasting), two_room_controller)
   \<and> EnterRoom two_room_controller ''u4'' ''r1'' = (Inr room_r1, two_room_controller)
   \<and> EnterRoom two_room_controller ''u4'' ''r2''
     = (Inl (ServerError ServerErrorUserJoined), two_room_controller)
   \<and> EnterRoom two_room_controller ''u2'' ''r2''
     = (Inr (new_room ''r2'' ''bob-room'' ''u6''),
        two_room_controller\<lparr>activeUserColl :=
          [\<lparr>ID_u = ''u1'', Status_u = UserStatusSingleLive, Room = ''r1'', JoinPosition = None\<rparr>,
           \<lparr>ID_u = ''u2'', Status_u = UserStatusWatching, Room = ''r2'', JoinPosition = None\<rparr>,
           \<lparr>ID_u = ''u3'', Status_u = UserStatusJoinWait, Room = ''r1'', JoinPosition = Some 1\<rparr>,
           \<lparr>ID_u = ''u4'', Status_u = UserStatusJoined, Room = ''r1'', JoinPosition = Some 2\<rparr>,
           \<lparr>ID_u = ''u5'', Status_u = UserStatusIdle, Room = [], JoinPosition = None\<rparr>,
           \<lparr>ID_u = ''u6'', Status_u = UserStatusSingleLive, Room = ''r2'',
            JoinPosition = None\<rparr>]\<rparr>)"
  using
    EnterRoom_cases [where c = two_room_controller and userID = "''u5''" and roomID = "''r9''"]
    EnterRoom_cases [where c = two_room_controller and userID = "''u1''" and roomID = "''r2''"
      and room = "new_room ''r2'' ''bob-room'' ''u6''"
      and u = "\<lparr>ID_u = ''u1'', Status_u = UserStatusSingleLive, Room = ''r1'',
                 JoinPosition = None\<rparr>"]
    EnterRoom_cases [where c = two_room_controller and userID = "''u4''" and roomID = "''r1''"
      and room = room_r1
      and u = "\<lparr>ID_u = ''u4'', Status_u = UserStatusJoined, Room = ''r1'',
                 JoinPosition = Some 2\<rparr>"]
    EnterRoom_cases [where c = two_room_controller and userID = "''u4''" and roomID = "''r2''"
      and room = "new_room ''r2'' ''bob-room'' ''u6''"
      and u = "\<lparr>ID_u = ''u4'', Status_u = UserStatusJoined, Room = ''r1'',
                 JoinPosition = Some 2\<rparr>"]
    EnterRoom_cases [where c = two_room_controller and userID = "''u2''" and roomID = "''r2''"
      and room = "new_room ''r2'' ''bob-room'' ''u6''"
      and u = "\<lparr>ID_u = ''u2'', Status_u = UserStatusWatching, Room = ''r1'',
                 JoinPosition = None\<rparr>"]
  by (simp add: demo_defs)

lemma LeaveRoom_found:
  assumes "faults c = []"
    and "find (\<lambda>v. ID_u v = userID) (activeUserColl c) = Some u"
  shows "LeaveRoom c userID roomID =
           (if Status_u u = UserStatusSingleLive \<or> Status_u u = UserStatusPKLive
               \<or> Status_u u = UserStatusPKWait
            then (Some (ServerError ServerErrorUserBroadcasting), c)
            else (None,
                  c\<lparr>activeUserColl :=
                      update_first (\<lambda>v. ID_u v = userID)
                        (\<lambda>v. u\<lparr>Status_u := UserStatusIdle, Room := [], JoinPosition := None\<rparr>)
                        (activeUserColl c)\<rparr>))"
proof (cases "find (\<lambda>r. ID r = roomID) (roomColl c)")
  case None
  with assms show ?thesis
    by (simp add: LeaveRoom_def GetRoomByID_none activeUserColl_One_some
          activeUserColl_UpdateOne_some)
next
  case (Some room)
  with assms show ?thesis
    by (simp add: LeaveRoom_def GetRoomByID_some activeUserColl_One_some
          activeUserColl_UpdateOne_some)
qed

text \<open>
  C7. With the store answering every call, for a user with a presence record and any
  \<open>roomID\<close>, stored or not: a user who is broadcasting is refused with
  \<open>UserBroadcasting\<close> and the store is as it was; every other user leaves, whatever
  room the record names, and the record is now idle with an empty room and no join
  position.
\<close>

theorem LeaveRoom_cases:
  assumes "faults c = []"
    and "find (\<lambda>v. ID_u v = userID) (activeUserColl c) = Some u"
  shows "(Status_u u \<in> set [UserStatusSingleLive, UserStatusPKLive, UserStatusPKWait] \<longrightarrow>
            LeaveRoom c userID roomID = (Some (ServerError ServerErrorUserBroadcasting), c))
       \<and> (Status_u u \<notin> set [UserStatusSingleLive, UserStatusPKLive, UserStatusPKWait] \<longrightarrow>
            LeaveRoom c userID roomID =
              (None,
               c\<lparr>activeUserColl :=
                   update_first (\<lambda>v. ID_u v = userID)
                     (\<lambda>v. u\<lparr>Status_u := UserStatusIdle, Room := [], JoinPosition := None\<rparr>)
                     (activeUserColl c)\<rparr>)
            \<and> find (\<lambda>v. ID_u v = userID) (activeUserColl (snd (LeaveRoom c userID roomID)))
                = Some (u\<lparr>Status_u := UserStatusIdle, Room := [], JoinPosition := None\<rparr>))"
proof (intro conjI impI)
  note found = LeaveRoom_found [OF assms, of roomID]
  {
    assume "Status_u u \<in> set [UserStatusSingleLive, UserStatusPKLive, UserStatusPKWait]"
    then show "LeaveRoom c userID roomID = (Some (ServerError ServerErrorUserBroadcasting), c)"
      unfolding found by auto
  next
    assume "Status_u u \<notin> set [UserStatusSingleLive, UserStatusPKLive, UserStatusPKWait]"
    then show left: "LeaveRoom c userID roomID =
              (None,
               c\<lparr>activeUserColl :=
                   update_first (\<lambda>v. ID_u v = userID)
                     (\<lambda>v. u\<lparr>Status_u := UserStatusIdle, Room := [], JoinPosition := None\<rparr>)
                     (activeUserColl c)\<rparr>)"
      unfolding found by simp
    have "ID_u u = userID"
      using assms(2) by (rule find_key_holds)
    then have "find (\<lambda>v. ID_u v = userID)
                 (update_first (\<lambda>v. ID_u v = userID)
                    (\<lambda>v. u\<lparr>Status_u := UserStatusIdle, Room := [], JoinPosition := None\<rparr>)
                    (activeUserColl c))
               = Some (u\<lparr>Status_u := UserStatusIdle, Room := [], JoinPosition := None\<rparr>)"
      using assms(2) by (intro find_update_first_same [where x = u]) simp_all
    then show "find (\<lambda>v. ID_u v = userID) (activeUserColl (snd (LeaveRoom c userID roomID)))
                = Some (u\<lparr>Status_u := UserStatusIdle, Room := [], JoinPosition := None\<rparr>)"
      unfolding left by simp
  }
qed

text \<open>
  The broadcaster \<open>u1\<close> cannot leave its room. The co-streamer \<open>u4\<close>, recorded in \<open>r1\<close>
  with seat 2, leaves a room \<open>r9\<close> that is not stored.
\<close>

theorem LeaveRoom_cases_witness:
  "LeaveRoom demo_controller ''u1'' ''r1''
     = (Some (ServerError ServerErrorUserBroadcasting), demo_controller)
   \<and> LeaveRoom demo_controller ''u4'' ''r9''
     = (None,
        demo_controller\<lparr>activeUserColl :=
          [\<lparr>ID_u = ''u1'', Status_u = UserStatusSingleLive, Room = ''r1'', JoinPosition = None\<rparr>,
           \<lparr>ID_u = ''u2'', Status_u = UserStatusWatching, Room = ''r1'', JoinPosition = None\<rparr>,
           \<lparr>ID_u = ''u3'', Status_u = UserStatusJoinWait, Room = ''r1'', JoinPosition = Some 1\<rparr>,
           \<lparr>ID_u = ''u4'', Status_u = UserStatusIdle, Room = [], JoinPosition = None\<rparr>,
           \<lparr>ID_u = ''u5'', Status_u = UserStatusIdle, Room = [], JoinPosition = None\<rparr>]\<rparr>)"
  using
    LeaveRoom_cases [where c = demo_controller and userID = "''u1''" and roomID = "''r1''"
      and u = "\<lparr>ID_u = ''u1'', Status_u = UserStatusSingleLive, Room = ''r1'',
                 JoinPosition = None\<rparr>"]
    LeaveRoom_cases [where c = demo_controller and userID = "''u4''" and roomID = "''r9''"
      and u = "\<lparr>ID_u = ''u4'', Status_u = UserStatusJoined, Room = ''r1'',
                 JoinPosition = Some 2\<rparr>"]
  by (simp add: demo_defs)

section \<open>Queries\<close>

text \<open>
  C9. \<open>ListRoomsByFields\<close> returns a list and no error on every input. When the store's
  find fails, the result is the empty list with no error: the very result of a
  successful find in a store without rooms.
\<close>

theorem ListRoomsByFields_never_fails:
  "(\<exists>rooms. fst (ListRoomsByFields c flds) = Inr rooms)
   \<and> fst (ListRoomsByFields (c\<lparr>faults := True # fs\<rparr>) flds) = Inr []
   \<and> fst (ListRoomsByFields (c\<lparr>faults := True # fs\<rparr>) flds)
       = fst (ListRoomsByFields (c\<lparr>roomColl := [], faults := []\<rparr>) flds)"
  by (simp add: ListRoomsByFields_def roomColl_All_def store_call_def Let_def split: prod.splits)

text \<open>
  C10. When the room lookup itself goes through and finds no room with the identifier,
  \<open>GetAudienceNumber\<close> and \<open>GetAllAudiences\<close> both fail with \<open>RoomNotFound\<close>, and the
  controller is left as that one store call leaves it: no second call, the audience
  query, has been made.
\<close>

theorem audience_queries_RoomNotFound:
  assumes "\<not> fst (store_call c)"
    and "find (\<lambda>r. ID r = roomID) (roomColl c) = None"
  shows "GetAudienceNumber c roomID
           = (Inl (ServerError ServerErrorRoomNotFound), snd (store_call c))
       \<and> GetAllAudiences c roomID
           = (Inl (ServerError ServerErrorRoomNotFound), snd (store_call c))"
  using assms
  by (cases "faults c")
     (auto simp add: GetAudienceNumber_def GetAllAudiences_def GetRoomByID_def
        GetRoomByFields_def roomColl_One_def store_call_def)

text \<open>
  Room \<open>r9\<close> is not stored. The script lets the lookup through and would fail the next
  call; it is still there afterwards.
\<close>

theorem audience_queries_RoomNotFound_witness:
  "GetAudienceNumber (demo_controller\<lparr>faults := [False, True]\<rparr>) ''r9''
     = (Inl (ServerError ServerErrorRoomNotFound), demo_controller\<lparr>faults := [True]\<rparr>)
   \<and> GetAllAudiences (demo_controller\<lparr>faults := [False, True]\<rparr>) ''r9''
     = (Inl (ServerError ServerErrorRoomNotFound), demo_controller\<lparr>faults := [True]\<rparr>)"
  using audience_queries_RoomNotFound
      [where c = "demo_controller\<lparr>faults := [False, True]\<rparr>" and roomID = "''r9''"]
  by (simp add: demo_defs store_call_def)

end
